theory Spec2Isabelle
  imports Complex_Main "HOL-Library.Char_ord"
begin

section \<open>Numbers and series elements\<close>

text \<open>
  A series is a JavaScript array of type \<^verbatim>\<open>(number | null)[]\<close>. A finite number is the
  real it stands for (no signed zero), next to the two infinities and NaN; \<open>js_add\<close> to
  \<open>js_div\<close> are the operations without rounding and without overflow. Reading an array
  at an index it does not have yields \<^verbatim>\<open>undefined\<close>, so that value is an element kind of
  its own.
\<close>

datatype num = Fin real | PInf | NInf | NaN

datatype val = Null | Undefined | Number num

abbreviation N :: "real \<Rightarrow> val" where
  "N r \<equiv> Number (Fin r)"

text \<open>\<^verbatim>\<open>ToNumber\<close> of the language standard, on the three element kinds.\<close>

fun toNumber :: "val \<Rightarrow> num" where
  "toNumber Null = Fin 0"
| "toNumber Undefined = NaN"
| "toNumber (Number n) = n"

fun js_neg :: "num \<Rightarrow> num" where
  "js_neg (Fin a) = Fin (- a)"
| "js_neg PInf = NInf"
| "js_neg NInf = PInf"
| "js_neg NaN = NaN"

fun js_add :: "num \<Rightarrow> num \<Rightarrow> num" where
  "js_add (Fin a) (Fin b) = Fin (a + b)"
| "js_add NaN _ = NaN"
| "js_add _ NaN = NaN"
| "js_add PInf NInf = NaN"
| "js_add NInf PInf = NaN"
| "js_add PInf _ = PInf"
| "js_add _ PInf = PInf"
| "js_add NInf _ = NInf"
| "js_add _ NInf = NInf"

definition js_sub :: "num \<Rightarrow> num \<Rightarrow> num" where
  "js_sub a b = js_add a (js_neg b)"

fun js_mul :: "num \<Rightarrow> num \<Rightarrow> num" where
  "js_mul (Fin a) (Fin b) = Fin (a * b)"
| "js_mul NaN _ = NaN"
| "js_mul _ NaN = NaN"
| "js_mul (Fin a) PInf = (if a = 0 then NaN else if 0 < a then PInf else NInf)"
| "js_mul (Fin a) NInf = (if a = 0 then NaN else if 0 < a then NInf else PInf)"
| "js_mul PInf (Fin b) = (if b = 0 then NaN else if 0 < b then PInf else NInf)"
| "js_mul NInf (Fin b) = (if b = 0 then NaN else if 0 < b then NInf else PInf)"
| "js_mul PInf PInf = PInf"
| "js_mul PInf NInf = NInf"
| "js_mul NInf PInf = NInf"
| "js_mul NInf NInf = PInf"

fun js_div :: "num \<Rightarrow> num \<Rightarrow> num" where
  "js_div (Fin a) (Fin b) =
     (if b \<noteq> 0 then Fin (a / b)
      else if 0 < a then PInf else if a < 0 then NInf else NaN)"
| "js_div NaN _ = NaN"
| "js_div _ NaN = NaN"
| "js_div (Fin a) PInf = Fin 0"
| "js_div (Fin a) NInf = Fin 0"
| "js_div PInf (Fin b) = (if 0 \<le> b then PInf else NInf)"
| "js_div NInf (Fin b) = (if 0 \<le> b then NInf else PInf)"
| "js_div PInf PInf = NaN"
| "js_div PInf NInf = NaN"
| "js_div NInf PInf = NaN"
| "js_div NInf NInf = NaN"

fun js_lt :: "num \<Rightarrow> num \<Rightarrow> bool" where
  "js_lt (Fin a) (Fin b) = (a < b)"
| "js_lt NaN _ = False"
| "js_lt _ NaN = False"
| "js_lt NInf NInf = False"
| "js_lt NInf _ = True"
| "js_lt _ NInf = False"
| "js_lt PInf _ = False"
| "js_lt _ PInf = True"

fun js_le :: "num \<Rightarrow> num \<Rightarrow> bool" where
  "js_le (Fin a) (Fin b) = (a \<le> b)"
| "js_le NaN _ = False"
| "js_le _ NaN = False"
| "js_le NInf _ = True"
| "js_le _ PInf = True"
| "js_le _ NInf = False"
| "js_le PInf _ = False"

definition js_gt :: "num \<Rightarrow> num \<Rightarrow> bool" where
  "js_gt a b = js_lt b a"

definition js_ge :: "num \<Rightarrow> num \<Rightarrow> bool" where
  "js_ge a b = js_le b a"

text \<open>Strict equality \<^verbatim>\<open>===\<close>: NaN differs from everything, itself included.\<close>

fun strict_eq :: "val \<Rightarrow> val \<Rightarrow> bool" where
  "strict_eq Null Null = True"
| "strict_eq Undefined Undefined = True"
| "strict_eq (Number a) (Number b) = (a \<noteq> NaN \<and> a = b)"
| "strict_eq _ _ = False"

text \<open>\<^verbatim>\<open>xs[i]\<close> at a loop counter, and \<^verbatim>\<open>xs[j]\<close> at a computed number: only an
  integer index inside the array names an element, anything else reads \<^verbatim>\<open>undefined\<close>.\<close>

definition js_nth :: "val list \<Rightarrow> nat \<Rightarrow> val" where
  "js_nth xs i = (if i < length xs then xs ! i else Undefined)"

definition js_index :: "val list \<Rightarrow> num \<Rightarrow> val" where
  "js_index xs j =
     (case j of
        Fin r \<Rightarrow> (if 0 \<le> r \<and> of_int \<lfloor>r\<rfloor> = r then js_nth xs (nat \<lfloor>r\<rfloor>) else Undefined)
      | _ \<Rightarrow> Undefined)"

section \<open>Errors\<close>

text \<open>One constructor for each \<^verbatim>\<open>throw\<close> of the sources, and \<open>TypeError\<close> for a property
  read on \<^verbatim>\<open>undefined\<close>, which the runtime raises.\<close>

datatype error =
    MissingNumericArgument
  | NumericArgumentNull
  | RefOffsetNegative
  | TypeError
  | BinaryLengthMismatch
  | FunctionLengthMismatch string
  | UnknownFunction string
  | UndefinedVariable string

fun collect :: "(error + 'a) list \<Rightarrow> error + 'a list" where
  "collect [] = Inr []"
| "collect (x # xs) =
     (case x of
        Inl e \<Rightarrow> Inl e
      | Inr v \<Rightarrow> (case collect xs of Inl e \<Rightarrow> Inl e | Inr vs \<Rightarrow> Inr (v # vs)))"

section \<open>The function registry's builtins (function-registry.ts)\<close>

text \<open>\<^verbatim>\<open>const [data, periodArg] = args\<close>: a missing position is \<^verbatim>\<open>undefined\<close>.\<close>

definition arg :: "val list list \<Rightarrow> nat \<Rightarrow> val list option" where
  "arg args k = (if k < length args then Some (args ! k) else None)"

definition getNumberArg :: "val list option \<Rightarrow> error + val" where
  "getNumberArg argValues =
     (case argValues of
        None \<Rightarrow> Inl TypeError
      | Some [] \<Rightarrow> Inl MissingNumericArgument
      | Some (firstValue # _) \<Rightarrow>
          if firstValue = Null then Inl NumericArgumentNull else Inr firstValue)"

subsection \<open>Arithmetic on doubles\<close>

text \<open>
  The sum, the difference and the quotient of two doubles are rounded. \<open>MA\<close> and \<open>REF\<close> take
  the three operations as a parameter, so that what is proved of them holds whatever the
  rounding. \<open>exactArith\<close> computes without rounding, as doubles do wherever the exact result
  is a double.
\<close>

record arith =
  fadd :: "num \<Rightarrow> num \<Rightarrow> num"
  fsub :: "num \<Rightarrow> num \<Rightarrow> num"
  fdiv :: "num \<Rightarrow> num \<Rightarrow> num"

definition exactArith :: arith where
  "exactArith = \<lparr>fadd = js_add, fsub = js_sub, fdiv = js_div\<rparr>"

subsection \<open>MA\<close>

text \<open>The inner loop \<^verbatim>\<open>for (let j = i - period + 1; j <= i; j++)\<close>. Nothing is known of a
  rounded \<^verbatim>\<open>j++\<close>, so the loop may run forever: that is the value \<open>None\<close>.\<close>

partial_function (option) ma_loop ::
  "arith \<Rightarrow> val list \<Rightarrow> nat \<Rightarrow> num \<Rightarrow> num \<times> nat \<Rightarrow> (num \<times> nat) option" where
  "ma_loop ar data i j p =
     (if js_le j (Fin (real i))
      then ma_loop ar data i (fadd ar j (Fin 1))
             (if js_index data j \<noteq> Null
              then (fadd ar (fst p) (toNumber (js_index data j)), snd p + 1)
              else p)
      else Some p)"

text \<open>One round of the outer loop.\<close>

definition MA_at :: "arith \<Rightarrow> val list \<Rightarrow> num \<Rightarrow> nat \<Rightarrow> val option" where
  "MA_at ar data period i =
     (if js_lt (Fin (real i)) (fsub ar period (Fin 1)) then Some Null
      else (case ma_loop ar data i (fadd ar (fsub ar (Fin (real i)) period) (Fin 1)) (Fin 0, 0) of
              None \<Rightarrow> None
            | Some (acc, cnt) \<Rightarrow>
                Some (if 0 < cnt then Number (fdiv ar acc (Fin (real cnt))) else Null)))"

definition MA :: "arith \<Rightarrow> val list list \<Rightarrow> (error + val list) option" where
  "MA ar args =
     (case getNumberArg (arg args 1) of
        Inl e \<Rightarrow> Some (Inl e)
      | Inr period \<Rightarrow>
          (case arg args 0 of
             None \<Rightarrow> Some (Inl TypeError)
           | Some data \<Rightarrow>
               map_option Inr (those (map (MA_at ar data (toNumber period)) [0..<length data]))))"

subsection \<open>REF\<close>

definition REF :: "arith \<Rightarrow> val list list \<Rightarrow> error + val list" where
  "REF ar args =
     (case getNumberArg (arg args 1) of
        Inl e \<Rightarrow> Inl e
      | Inr offset \<Rightarrow>
          if js_lt (toNumber offset) (Fin 0) then Inl RefOffsetNegative
          else (case arg args 0 of
                  None \<Rightarrow> Inl TypeError
                | Some data \<Rightarrow>
                    Inr (map (\<lambda>i. let refIndex = fsub ar (Fin (real i)) (toNumber offset)
                                   in if js_ge refIndex (Fin 0) then js_index data refIndex
                                      else Null)
                           [0..<length data])))"

subsection \<open>CROSS\<close>

text \<open>One round of the loop. The tests of the condition run left to right and stop at the
  first that holds, so \<open>b\<close> is read only when \<open>i\<close> is not 0 and \<open>a[i]\<close> is not null.\<close>

definition CROSS_at :: "val list \<Rightarrow> val list option \<Rightarrow> nat \<Rightarrow> error + val" where
  "CROSS_at a b i =
     (if i = 0 \<or> js_nth a i = Null then Inr (N 0)
      else (case b of
              None \<Rightarrow> Inl TypeError
            | Some b \<Rightarrow>
                if js_nth b i = Null \<or> js_nth a (i - 1) = Null \<or> js_nth b (i - 1) = Null
                then Inr (N 0)
                else Inr (if js_lt (toNumber (js_nth a (i - 1))) (toNumber (js_nth b (i - 1)))
                             \<and> js_gt (toNumber (js_nth a i)) (toNumber (js_nth b i))
                          then N 1 else N 0)))"

definition CROSS :: "val list list \<Rightarrow> error + val list" where
  "CROSS args =
     (case arg args 0 of
        None \<Rightarrow> Inl TypeError
      | Some a \<Rightarrow> collect (map (CROSS_at a (arg args 1)) [0..<length a]))"

section \<open>The syntax tree (ast.ts)\<close>

text \<open>The unary operators \<open>Not\<close> and \<open>Neg\<close> carry a prefix here, \<open>Not\<close> being the
  negation of the logic.\<close>

datatype UnaryOperator = UNot | UNeg

datatype BinaryOperator =
  Add | Sub | Mul | Div | Gt | Lt | GtEq | LtEq | EqEq | NotEq | And | Or

datatype Expr =
    Literal num
  | Variable string
  | UnaryOp UnaryOperator Expr
  | BinaryOp Expr BinaryOperator Expr
  | FunctionCall string "Expr list"
  | Grouped Expr

datatype Statement =
    Assignment string Expr
  | Output "string option" Expr "string list"

type_synonym Formula = "Statement list"

section \<open>The evaluator (data.ts, evaluator.ts)\<close>

record InputData =
  opens :: "val list"
  highs :: "val list"
  lows :: "val list"
  closes :: "val list"
  volumes :: "val list"
  numBars :: nat

text \<open>The fields \<open>name\<close>, \<open>data\<close> and \<open>styles\<close> of an output line.\<close>

record OutputLineResult =
  lineName :: string
  lineData :: "val list"
  lineStyles :: "string list"

type_synonym FormulaResult = "OutputLineResult list"

type_synonym Environment = "string \<rightharpoonup> val list"

type_synonym FunctionType = "val list list \<Rightarrow> error + val list"

text \<open>The registry is its map \<open>functions\<close>, keyed by upper-case names. \<open>toUpperCase\<close> is
  modelled on the letters a to z, which is all an identifier of the lexer can hold.\<close>

type_synonym FunctionRegistry = "string \<rightharpoonup> FunctionType"

definition upperChar :: "char \<Rightarrow> char" where
  "upperChar c =
     (case map_of (zip ''abcdefghijklmnopqrstuvwxyz'' ''ABCDEFGHIJKLMNOPQRSTUVWXYZ'') c of
        Some u \<Rightarrow> u
      | None \<Rightarrow> c)"

definition toUpperCase :: "string \<Rightarrow> string" where
  "toUpperCase s = map upperChar s"

definition getFunction :: "FunctionRegistry \<Rightarrow> string \<Rightarrow> FunctionType option" where
  "getFunction functions nm = functions (toUpperCase nm)"

record Evaluator =
  inputData :: InputData
  environment :: Environment
  outputLines :: "OutputLineResult list"
  functionRegistry :: FunctionRegistry

definition initializeBuiltinVariables :: "Evaluator \<Rightarrow> Evaluator" where
  "initializeBuiltinVariables ev =
     ev\<lparr>environment := (environment ev)
          (''O'' \<mapsto> opens (inputData ev),
           ''H'' \<mapsto> highs (inputData ev),
           ''L'' \<mapsto> lows (inputData ev),
           ''C'' \<mapsto> closes (inputData ev),
           ''V'' \<mapsto> volumes (inputData ev))\<rparr>"

text \<open>The constructor.\<close>

definition createEvaluator :: "InputData \<Rightarrow> FunctionRegistry \<Rightarrow> Evaluator" where
  "createEvaluator inp reg =
     initializeBuiltinVariables
       \<lparr>inputData = inp, environment = Map.empty, outputLines = [], functionRegistry = reg\<rparr>"

definition expandNumber :: "Evaluator \<Rightarrow> num \<Rightarrow> val list" where
  "expandNumber ev v = replicate (numBars (inputData ev)) (Number v)"

definition resolveVariable :: "Evaluator \<Rightarrow> string \<Rightarrow> error + val list" where
  "resolveVariable ev nm =
     (case environment ev nm of
        None \<Rightarrow> Inl (UndefinedVariable nm)
      | Some v \<Rightarrow> Inr v)"

definition bool_val :: "bool \<Rightarrow> val" where
  "bool_val b = (if b then N 1 else N 0)"

text \<open>The callback of \<^verbatim>\<open>operandValue.map\<close> in \<open>evaluateUnaryOp\<close>.\<close>

definition unaryElem :: "UnaryOperator \<Rightarrow> val \<Rightarrow> val" where
  "unaryElem operator v =
     (if v = Null then Null
      else (case operator of
              UNeg \<Rightarrow> Number (js_neg (toNumber v))
            | UNot \<Rightarrow> (if strict_eq v (N 0) then N 1 else N 0)))"

text \<open>The callback of \<^verbatim>\<open>leftValue.map\<close> in \<open>evaluateBinaryOp\<close>.\<close>

definition binaryElem :: "BinaryOperator \<Rightarrow> val \<Rightarrow> val \<Rightarrow> val" where
  "binaryElem operator leftVal rightVal =
     (if leftVal = Null \<or> rightVal = Null then Null
      else (case operator of
              Add \<Rightarrow> Number (js_add (toNumber leftVal) (toNumber rightVal))
            | Sub \<Rightarrow> Number (js_sub (toNumber leftVal) (toNumber rightVal))
            | Mul \<Rightarrow> Number (js_mul (toNumber leftVal) (toNumber rightVal))
            | Div \<Rightarrow> (if strict_eq rightVal (N 0) then Null
                      else Number (js_div (toNumber leftVal) (toNumber rightVal)))
            | Gt \<Rightarrow> bool_val (js_gt (toNumber leftVal) (toNumber rightVal))
            | Lt \<Rightarrow> bool_val (js_lt (toNumber leftVal) (toNumber rightVal))
            | GtEq \<Rightarrow> bool_val (js_ge (toNumber leftVal) (toNumber rightVal))
            | LtEq \<Rightarrow> bool_val (js_le (toNumber leftVal) (toNumber rightVal))
            | EqEq \<Rightarrow> bool_val (strict_eq leftVal rightVal)
            | NotEq \<Rightarrow> bool_val (\<not> strict_eq leftVal rightVal)
            | And \<Rightarrow> bool_val (\<not> strict_eq leftVal (N 0) \<and> \<not> strict_eq rightVal (N 0))
            | Or \<Rightarrow> bool_val (\<not> strict_eq leftVal (N 0) \<or> \<not> strict_eq rightVal (N 0))))"

text \<open>\<open>evaluateFunctionCall\<close> once the arguments are evaluated.\<close>

definition callFunction :: "Evaluator \<Rightarrow> string \<Rightarrow> val list list \<Rightarrow> error + val list" where
  "callFunction ev nm argValues =
     (let len = (case argValues of [] \<Rightarrow> 0 | a # _ \<Rightarrow> length a)
      in if \<exists>argValue \<in> set argValues. length argValue \<noteq> len
         then Inl (FunctionLengthMismatch nm)
         else (case getFunction (functionRegistry ev) nm of
                 None \<Rightarrow> Inl (UnknownFunction nm)
               | Some func \<Rightarrow> func argValues))"

fun evaluateExpr :: "Evaluator \<Rightarrow> Expr \<Rightarrow> error + val list"
  and evaluateArgs :: "Evaluator \<Rightarrow> Expr list \<Rightarrow> error + val list list" where
  "evaluateExpr ev (Literal v) = Inr (expandNumber ev v)"
| "evaluateExpr ev (Variable nm) = resolveVariable ev nm"
| "evaluateExpr ev (UnaryOp operator operand) =
     (case evaluateExpr ev operand of
        Inl e \<Rightarrow> Inl e
      | Inr operandValue \<Rightarrow> Inr (map (unaryElem operator) operandValue))"
| "evaluateExpr ev (BinaryOp left operator right) =
     (case evaluateExpr ev left of
        Inl e \<Rightarrow> Inl e
      | Inr leftValue \<Rightarrow>
          (case evaluateExpr ev right of
             Inl e \<Rightarrow> Inl e
           | Inr rightValue \<Rightarrow>
               if length leftValue \<noteq> length rightValue then Inl BinaryLengthMismatch
               else Inr (map (\<lambda>i. binaryElem operator (leftValue ! i) (rightValue ! i))
                          [0..<length leftValue])))"
| "evaluateExpr ev (FunctionCall nm args) =
     (case evaluateArgs ev args of
        Inl e \<Rightarrow> Inl e
      | Inr argValues \<Rightarrow> callFunction ev nm argValues)"
| "evaluateExpr ev (Grouped e) = evaluateExpr ev e"
| "evaluateArgs ev [] = Inr []"
| "evaluateArgs ev (a # as) =
     (case evaluateExpr ev a of
        Inl e \<Rightarrow> Inl e
      | Inr v \<Rightarrow> (case evaluateArgs ev as of Inl e \<Rightarrow> Inl e | Inr vs \<Rightarrow> Inr (v # vs)))"

text \<open>Decimal digits of a count, for the name \<^verbatim>\<open>output_<k>\<close>.\<close>

function decimal :: "nat \<Rightarrow> string" where
  "decimal n = (if n < 10 then [''0123456789'' ! n] else decimal (n div 10) @ [''0123456789'' ! (n mod 10)])"
  by pat_completeness auto
termination
  by (relation "measure id") auto

declare decimal.simps [simp del]

definition executeStatement ::
  "Statement \<Rightarrow> Evaluator \<Rightarrow> (error + OutputLineResult option) \<times> Evaluator" where
  "executeStatement statement ev =
     (case statement of
        Assignment variable expr \<Rightarrow>
          (case evaluateExpr ev expr of
             Inl e \<Rightarrow> (Inl e, ev)
           | Inr v \<Rightarrow> (Inr None, ev\<lparr>environment := (environment ev)(variable \<mapsto> v)\<rparr>))
      | Output nm expr sty \<Rightarrow>
          (case evaluateExpr ev expr of
             Inl e \<Rightarrow> (Inl e, ev)
           | Inr d \<Rightarrow>
               (Inr (Some \<lparr>lineName =
                              (case nm of
                                 Some n \<Rightarrow> if n \<noteq> [] then n
                                           else ''output_'' @ decimal (length (outputLines ev) + 1)
                               | None \<Rightarrow> ''output_'' @ decimal (length (outputLines ev) + 1)),
                            lineData = d, lineStyles = sty\<rparr>), ev)))"

text \<open>The loop over \<^verbatim>\<open>formula.statements\<close>; an exception leaves the evaluator as the
  statements before it have made it.\<close>

fun runStatements :: "Statement list \<Rightarrow> Evaluator \<Rightarrow> (error + unit) \<times> Evaluator" where
  "runStatements [] ev = (Inr (), ev)"
| "runStatements (statement # rest) ev =
     (case executeStatement statement ev of
        (Inl e, ev') \<Rightarrow> (Inl e, ev')
      | (Inr None, ev') \<Rightarrow> runStatements rest ev'
      | (Inr (Some result), ev') \<Rightarrow>
          runStatements rest (ev'\<lparr>outputLines := outputLines ev' @ [result]\<rparr>))"

definition evaluateFormula ::
  "Formula \<Rightarrow> Evaluator \<Rightarrow> (error + FormulaResult) \<times> Evaluator" where
  "evaluateFormula formula ev =
     (case runStatements formula (ev\<lparr>outputLines := []\<rparr>) of
        (Inl e, ev') \<Rightarrow> (Inl e, ev')
      | (Inr _, ev') \<Rightarrow> (Inr (outputLines ev'), ev'))"

section \<open>Tokens (token.ts)\<close>

text \<open>The token kinds carry the prefix \<open>T\<close>: several share their names with the binary
  operators. A token's \<open>line\<close> and \<open>column\<close> are the fields \<open>tline\<close> and \<open>tcolumn\<close>.\<close>

datatype TokenType =
    TLParen | TRParen | TComma | TSemicolon | TPlus | TMinus | TStar | TSlash | TColon
  | TGt | TLt
  | TColonAssign | TGtEq | TLtEq | TNotEq | TEqEq
  | TIdentifier | TNumber | TString
  | TIf | TThen | TElse | TAnd | TOr | TNot
  | TNewline | TIllegal | TEof

record Token =
  tokenType :: TokenType
  lexeme :: string
  tline :: nat
  tcolumn :: nat

definition createToken :: "TokenType \<Rightarrow> string \<Rightarrow> nat \<Rightarrow> nat \<Rightarrow> Token" where
  "createToken tt lx l c = \<lparr>tokenType = tt, lexeme = lx, tline = l, tcolumn = c\<rparr>"

definition KEYWORDS :: "string \<rightharpoonup> TokenType" where
  "KEYWORDS = map_of
     [(''IF'', TIf), (''THEN'', TThen), (''ELSE'', TElse),
      (''AND'', TAnd), (''OR'', TOr), (''NOT'', TNot)]"

definition lookupKeyword :: "string \<Rightarrow> TokenType" where
  "lookupKeyword ident =
     (case KEYWORDS (toUpperCase ident) of Some tt \<Rightarrow> tt | None \<Rightarrow> TIdentifier)"

section \<open>The lexer (lexer.ts)\<close>

text \<open>The input is a list of characters; a character outside ASCII is one the lexer does
  not recognise, as in the source.\<close>

record Lexer =
  input :: string
  position :: nat
  line :: nat
  column :: nat

definition createLexer :: "string \<Rightarrow> Lexer" where
  "createLexer txt = \<lparr>input = txt, position = 0, line = 1, column = 1\<rparr>"

definition isAtEnd :: "Lexer \<Rightarrow> bool" where
  "isAtEnd lx \<longleftrightarrow> position lx \<ge> length (input lx)"

definition peek :: "Lexer \<Rightarrow> char" where
  "peek lx = (if isAtEnd lx then CHR 0x00 else input lx ! position lx)"

definition peekNext :: "Lexer \<Rightarrow> char" where
  "peekNext lx =
     (if position lx + 1 \<ge> length (input lx) then CHR 0x00 else input lx ! (position lx + 1))"

definition advance :: "Lexer \<Rightarrow> char \<times> Lexer" where
  "advance lx =
     (if isAtEnd lx then (CHR 0x00, lx)
      else (input lx ! position lx, lx\<lparr>position := position lx + 1, column := column lx + 1\<rparr>))"

definition isDigit :: "char \<Rightarrow> bool" where
  "isDigit c \<longleftrightarrow> CHR ''0'' \<le> c \<and> c \<le> CHR ''9''"

definition isAlpha :: "char \<Rightarrow> bool" where
  "isAlpha c \<longleftrightarrow>
     (CHR ''a'' \<le> c \<and> c \<le> CHR ''z'') \<or> (CHR ''A'' \<le> c \<and> c \<le> CHR ''Z'') \<or> c = CHR ''_''"

definition isAlphaNumeric :: "char \<Rightarrow> bool" where
  "isAlphaNumeric c \<longleftrightarrow> isAlpha c \<or> isDigit c"

function skipWhitespace :: "Lexer \<Rightarrow> Lexer" where
  "skipWhitespace lx =
     (if \<not> isAtEnd lx \<and> (peek lx = CHR '' '' \<or> peek lx = CHR 0x09 \<or> peek lx = CHR 0x0D)
      then skipWhitespace (snd (advance lx))
      else lx)"
  by pat_completeness auto
termination
  by (relation "measure (\<lambda>lx. length (input lx) - position lx)")
     (auto simp: advance_def isAtEnd_def)

declare skipWhitespace.simps [simp del]

text \<open>The loop of \<open>skipComment\<close>, and \<open>skipComment\<close>.\<close>

function skipCommentLoop :: "Lexer \<Rightarrow> Lexer" where
  "skipCommentLoop lx =
     (if \<not> isAtEnd lx \<and> peek lx \<noteq> CHR ''}''
      then skipCommentLoop
             (snd (advance (if peek lx = CHR 0x0A then lx\<lparr>line := line lx + 1, column := 1\<rparr>
                            else lx)))
      else lx)"
  by pat_completeness auto
termination
  by (relation "measure (\<lambda>lx. length (input lx) - position lx)")
     (auto simp: advance_def isAtEnd_def)

declare skipCommentLoop.simps [simp del]

definition skipComment :: "Lexer \<Rightarrow> Lexer" where
  "skipComment lx =
     (let lx1 = skipCommentLoop lx
      in if \<not> isAtEnd lx1 then snd (advance lx1) else lx1)"

definition consumeCharToken :: "TokenType \<Rightarrow> Lexer \<Rightarrow> Token \<times> Lexer" where
  "consumeCharToken tt lx =
     (let startColumn = column lx; (c, lx1) = advance lx
      in (createToken tt [c] (line lx1) startColumn, lx1))"

text \<open>The two-character tokens: \<^verbatim>\<open>this.advance() + this.advance()\<close>.\<close>

definition consumeTwoCharToken :: "TokenType \<Rightarrow> Lexer \<Rightarrow> Token \<times> Lexer" where
  "consumeTwoCharToken tt lx =
     (let startColumn = column lx; (c1, lx1) = advance lx; (c2, lx2) = advance lx1
      in (createToken tt [c1, c2] (line lx2) startColumn, lx2))"

definition handleColon :: "Lexer \<Rightarrow> Token \<times> Lexer" where
  "handleColon lx =
     (if peekNext lx = CHR ''='' then consumeTwoCharToken TColonAssign lx
      else consumeCharToken TColon lx)"

definition handleGreater :: "Lexer \<Rightarrow> Token \<times> Lexer" where
  "handleGreater lx =
     (if peekNext lx = CHR ''='' then consumeTwoCharToken TGtEq lx
      else consumeCharToken TGt lx)"

definition handleLess :: "Lexer \<Rightarrow> Token \<times> Lexer" where
  "handleLess lx =
     (if peekNext lx = CHR ''='' then consumeTwoCharToken TLtEq lx
      else if peekNext lx = CHR ''>'' then consumeTwoCharToken TNotEq lx
      else consumeCharToken TLt lx)"

definition handleEqual :: "Lexer \<Rightarrow> Token \<times> Lexer" where
  "handleEqual lx =
     (if peekNext lx = CHR ''='' then consumeTwoCharToken TEqEq lx
      else consumeCharToken TEqEq lx)"

definition handleNewline :: "Lexer \<Rightarrow> Token \<times> Lexer" where
  "handleNewline lx =
     (let startColumn = column lx; (c, lx1) = advance lx;
          lx2 = lx1\<lparr>line := line lx1 + 1, column := 1\<rparr>
      in (createToken TNewline [c] (line lx2) startColumn, lx2))"

text \<open>The loops \<^verbatim>\<open>while (!this.isAtEnd() && this.isDigit(this.peek())) lexeme += this.advance()\<close>
  of \<open>readNumber\<close> and its like in \<open>readIdentifier\<close>.\<close>

function readWhile :: "(char \<Rightarrow> bool) \<Rightarrow> Lexer \<Rightarrow> string \<Rightarrow> string \<times> Lexer" where
  "readWhile ok lx lexm =
     (if \<not> isAtEnd lx \<and> ok (peek lx)
      then readWhile ok (snd (advance lx)) (lexm @ [fst (advance lx)])
      else (lexm, lx))"
  by pat_completeness auto
termination
  by (relation "measure (\<lambda>(ok, lx, lexm). length (input lx) - position lx)")
     (auto simp: advance_def isAtEnd_def)

declare readWhile.simps [simp del]

definition readNumber :: "Lexer \<Rightarrow> Token \<times> Lexer" where
  "readNumber lx =
     (let startColumn = column lx;
          (lexm1, lx1) = readWhile isDigit lx [];
          (lexm2, lx2) =
            (if \<not> isAtEnd lx1 \<and> peek lx1 = CHR ''.''
             then readWhile isDigit (snd (advance lx1)) (lexm1 @ [fst (advance lx1)])
             else (lexm1, lx1))
      in (createToken TNumber lexm2 (line lx2) startColumn, lx2))"

definition readIdentifier :: "Lexer \<Rightarrow> Token \<times> Lexer" where
  "readIdentifier lx =
     (let startColumn = column lx;
          (lexm, lx1) = readWhile isAlphaNumeric lx []
      in (createToken (lookupKeyword lexm) lexm (line lx1) startColumn, lx1))"

text \<open>The loop of \<open>readString\<close>, which counts the lines it crosses.\<close>

function readStringLoop :: "Lexer \<Rightarrow> string \<Rightarrow> string \<times> Lexer" where
  "readStringLoop lx lexm =
     (if \<not> isAtEnd lx \<and> peek lx \<noteq> CHR 0x22
      then (let lx1 = (if peek lx = CHR 0x0A then lx\<lparr>line := line lx + 1, column := 1\<rparr> else lx)
            in readStringLoop (snd (advance lx1)) (lexm @ [fst (advance lx1)]))
      else (lexm, lx))"
  by pat_completeness auto
termination
  by (relation "measure (\<lambda>(lx, lexm). length (input lx) - position lx)")
     (auto simp: advance_def isAtEnd_def)

declare readStringLoop.simps [simp del]

definition readString :: "Lexer \<Rightarrow> Token \<times> Lexer" where
  "readString lx =
     (let startColumn = column lx;
          (lexm, lx1) = readStringLoop (snd (advance lx)) []
      in if isAtEnd lx1 then (createToken TIllegal lexm (line lx1) startColumn, lx1)
         else (createToken TString lexm (line lx1) startColumn, snd (advance lx1)))"

lemma skipWhitespace_frame:
  "input (skipWhitespace lx) = input lx \<and> position lx \<le> position (skipWhitespace lx)"
proof (induction lx rule: skipWhitespace.induct)
  case (1 lx)
  show ?case
  proof (cases "\<not> isAtEnd lx \<and> (peek lx = CHR '' '' \<or> peek lx = CHR 0x09 \<or> peek lx = CHR 0x0D)")
    case True
    with 1 show ?thesis
      by (subst (1 2) skipWhitespace.simps) (auto simp: advance_def)
  next
    case False
    then show ?thesis by (subst (1 2) skipWhitespace.simps) auto
  qed
qed

lemma skipCommentLoop_frame:
  "input (skipCommentLoop lx) = input lx \<and> position lx \<le> position (skipCommentLoop lx)
   \<and> (\<not> isAtEnd lx \<and> peek lx \<noteq> CHR ''}'' \<longrightarrow> position lx < position (skipCommentLoop lx))"
proof (induction lx rule: skipCommentLoop.induct)
  case (1 lx)
  show ?case
  proof (cases "\<not> isAtEnd lx \<and> peek lx \<noteq> CHR ''}''")
    case True
    with 1 show ?thesis
      by (subst (1 2 3) skipCommentLoop.simps) (auto simp: advance_def isAtEnd_def)
  next
    case False
    then show ?thesis by (subst (1 2) skipCommentLoop.simps) auto
  qed
qed

lemma skipComment_frame:
  "input (skipComment lx) = input lx"
  "\<not> isAtEnd lx \<Longrightarrow> peek lx \<noteq> CHR ''}'' \<Longrightarrow> position lx < position (skipComment lx)"
  using skipCommentLoop_frame[of lx]
  by (auto simp: skipComment_def Let_def advance_def)

text \<open>Skipping a comment moves the position forward, which is why \<open>nextToken\<close>, calling
  itself after a comment, terminates.\<close>

function nextToken :: "Lexer \<Rightarrow> Token \<times> Lexer" where
  "nextToken lx0 =
     (let lx = skipWhitespace lx0
      in if isAtEnd lx then (createToken TEof [] (line lx) (column lx), lx)
         else (let char = peek lx
               in if char = CHR ''('' then consumeCharToken TLParen lx
                  else if char = CHR '')'' then consumeCharToken TRParen lx
                  else if char = CHR '','' then consumeCharToken TComma lx
                  else if char = CHR '';'' then consumeCharToken TSemicolon lx
                  else if char = CHR ''+'' then consumeCharToken TPlus lx
                  else if char = CHR ''-'' then consumeCharToken TMinus lx
                  else if char = CHR ''*'' then consumeCharToken TStar lx
                  else if char = CHR ''/'' then consumeCharToken TSlash lx
                  else if char = CHR '':'' then handleColon lx
                  else if char = CHR ''>'' then handleGreater lx
                  else if char = CHR ''<'' then handleLess lx
                  else if char = CHR ''='' then handleEqual lx
                  else if char = CHR 0x22 then readString lx
                  else if char = CHR 0x0A then handleNewline lx
                  else if char = CHR ''{'' then nextToken (skipComment lx)
                  else if isDigit char then readNumber lx
                  else if isAlpha char then readIdentifier lx
                  else (createToken TIllegal [char] (line lx) (column lx), lx)))"
  by pat_completeness auto
termination
proof (relation "measure (\<lambda>lx. length (input lx) - position lx)")
  show "wf (measure (\<lambda>lx. length (input lx) - position lx))" by simp
next
  fix lx0 lx ch
  assume a: "lx = skipWhitespace lx0" "\<not> isAtEnd lx" "ch = peek lx" "ch = CHR ''{''"
  have 1: "input lx = input lx0" "position lx0 \<le> position lx"
    using skipWhitespace_frame[of lx0] a(1) by auto
  have "peek lx = CHR ''{''" using a(3,4) by simp
  then have ne: "peek lx \<noteq> CHR ''}''" by simp
  have 2: "input (skipComment lx) = input lx" "position lx < position (skipComment lx)"
    using skipComment_frame(1)[of lx] skipComment_frame(2)[OF a(2) ne] by auto
  have 3: "position lx < length (input lx)" using a(2) by (simp add: isAtEnd_def)
  show "(skipComment lx, lx0) \<in> measure (\<lambda>lx. length (input lx) - position lx)"
    using 1 2 3 by simp
qed

declare nextToken.simps [simp del]


section \<open>The parser (parser.ts)\<close>

text \<open>One constructor for each \<^verbatim>\<open>throw\<close> of the parser; \<open>NullToken\<close> is the runtime's
  TypeError when \<^verbatim>\<open>this.currentToken!\<close> is null and its \<open>tokenType\<close> is read.\<close>

datatype syntax_error =
    UnexpectedToken TokenType nat nat
  | ExpectedButEof TokenType
  | ExpectedButGot TokenType TokenType nat nat
  | IfNeedsFirstComma
  | IfNeedsSecondComma
  | InvalidBinaryOperator TokenType
  | NullToken

record 's Parser =
  lexer :: "'s \<Rightarrow> Token \<times> 's"
  source :: 's
  lookahead :: "Token option"
  currentToken :: "Token option"

definition iter_next :: "'s Parser \<Rightarrow> Token option \<times> 's Parser" where
  "iter_next ps =
     (case lookahead ps of
        Some token \<Rightarrow> (Some token, ps\<lparr>lookahead := None\<rparr>)
      | None \<Rightarrow>
          (let (token, s) = lexer ps (source ps)
           in (if tokenType token = TEof then None else Some token, ps\<lparr>source := s\<rparr>)))"


definition Parser_advance :: "'s Parser \<Rightarrow> 's Parser" where
  "Parser_advance ps = (let (r, ps1) = iter_next ps in ps1\<lparr>currentToken := r\<rparr>)"




definition expectToken :: "TokenType \<Rightarrow> 's Parser \<Rightarrow> syntax_error + Token \<times> 's Parser" where
  "expectToken expectedType ps =
     (case currentToken ps of
        None \<Rightarrow> Inl (ExpectedButEof expectedType)
      | Some token \<Rightarrow>
          if tokenType token \<noteq> expectedType
          then Inl (ExpectedButGot expectedType (tokenType token) (tline token) (tcolumn token))
          else Inr (token, Parser_advance ps))"







type_synonym ('s, 'a) presult = "(syntax_error + 'a \<times> 's Parser) option"























section \<open>Token streams for the parser\<close>


definition tk :: "TokenType \<Rightarrow> string \<Rightarrow> Token" where
  "tk tt s = createToken tt s 1 1"




section \<open>The lexer on the remaining input\<close>

text \<open>What a lexer has still to read, and a scanner of that remainder alone: \<open>scan\<close> gives
  the kind and lexeme of the next token and what remains after it. \<open>nextToken\<close> is shown
  below to compute exactly this, so that a property of the token stream can be proved on
  strings.\<close>

definition rest :: "Lexer \<Rightarrow> string" where
  "rest lx = drop (position lx) (input lx)"






text \<open>The characters \<open>nextToken\<close> has a branch for, and \<open>n\<close> calls of \<open>nextToken\<close> in a row.\<close>

definition recognised :: "char \<Rightarrow> bool" where
  "recognised c \<longleftrightarrow>
     c = CHR '' '' \<or> c = CHR 0x09 \<or> c = CHR 0x0D \<or> c = CHR 0x0A
     \<or> c \<in> set ''(),;+-*/:><='' \<or> c = CHR 0x22 \<or> c = CHR ''{''
     \<or> isDigit c \<or> isAlpha c"

fun lexN :: "nat \<Rightarrow> Lexer \<Rightarrow> Token list \<times> Lexer" where
  "lexN 0 lx = ([], lx)"
| "lexN (Suc n) lx =
     (case nextToken lx of (t, lx1) \<Rightarrow> (case lexN n lx1 of (ts, lx2) \<Rightarrow> (t # ts, lx2)))"

section \<open>What the specification says, as definitions\<close>

text \<open>The window \<^verbatim>\<open>data[i-n+1..i]\<close> of the specification: the elements whose index lies
  between \<open>i - n + 1\<close> and \<open>i\<close>.\<close>

definition window :: "val list \<Rightarrow> real \<Rightarrow> nat \<Rightarrow> val list" where
  "window xs n i = map (\<lambda>j. xs ! j) (filter (\<lambda>j. real i - n + 1 \<le> real j) [0..<Suc i])"

text \<open>The sum of a list of values, added up from the left in the arithmetic \<open>ar\<close>.\<close>

definition js_sum :: "arith \<Rightarrow> val list \<Rightarrow> num" where
  "js_sum ar vs = foldl (\<lambda>s v. fadd ar s (toNumber v)) (Fin 0) vs"

text \<open>The moving average as the specification words it: null before index \<open>n - 1\<close>, then the
  sum of the window's non-null values over their count, null when there is none.\<close>

definition MA_spec :: "arith \<Rightarrow> real \<Rightarrow> val list \<Rightarrow> val list" where
  "MA_spec ar n xs =
     map (\<lambda>i. if real i < n - 1 then Null
               else (let w = filter (\<lambda>v. v \<noteq> Null) (window xs n i)
                     in if w = [] then Null
                        else Number (fdiv ar (js_sum ar w) (Fin (real (length w))))))
       [0..<length xs]"

text \<open>What \<open>MA\<close> asks of the arithmetic on a series of \<open>n\<close> elements and the integer period
  \<open>k\<close>: the test \<^verbatim>\<open>i < period - 1\<close> comes out as on the integers, and \<^verbatim>\<open>i - period + 1\<close>
  and \<^verbatim>\<open>j++\<close> are exact on the indices of the series.\<close>

definition index_arith :: "arith \<Rightarrow> nat \<Rightarrow> nat \<Rightarrow> bool" where
  "index_arith ar n k \<longleftrightarrow>
     (\<forall>i<n. js_lt (Fin (real i)) (fsub ar (Fin (real k)) (Fin 1)) = (real i < real k - 1))
   \<and> (\<forall>i<n. k \<le> Suc i \<longrightarrow>
          fadd ar (fsub ar (Fin (real i)) (Fin (real k))) (Fin 1) = Fin (real (Suc i - k)))
   \<and> (\<forall>j<n. fadd ar (Fin (real j)) (Fin 1) = Fin (real (Suc j)))"

text \<open>What \<open>REF\<close> asks of the arithmetic on a series of \<open>n\<close> elements and the integer offset
  \<open>k\<close>: \<^verbatim>\<open>i - offset\<close> is exact from index \<open>k\<close> on and negative below.\<close>

definition offset_arith :: "arith \<Rightarrow> nat \<Rightarrow> nat \<Rightarrow> bool" where
  "offset_arith ar n k \<longleftrightarrow>
     (\<forall>i<n. k \<le> i \<longrightarrow> fsub ar (Fin (real i)) (Fin (real k)) = Fin (real (i - k)))
   \<and> (\<forall>i<n. i < k \<longrightarrow> js_lt (fsub ar (Fin (real i)) (Fin (real k))) (Fin 0))"

text \<open>An upward cross at index \<open>i\<close>, as the specification words it.\<close>

definition cross_up :: "val list \<Rightarrow> val list \<Rightarrow> nat \<Rightarrow> bool" where
  "cross_up a b i \<longleftrightarrow>
     0 < i \<and> a ! (i - 1) \<noteq> Null \<and> b ! (i - 1) \<noteq> Null \<and> a ! i \<noteq> Null \<and> b ! i \<noteq> Null
     \<and> js_lt (toNumber (a ! (i - 1))) (toNumber (b ! (i - 1)))
     \<and> js_gt (toNumber (a ! i)) (toNumber (b ! i))"

text \<open>A non-null element counts as true when it is not zero.\<close>

definition truthy :: "val \<Rightarrow> bool" where
  "truthy v \<longleftrightarrow> v \<noteq> N 0"

fun compare_real :: "BinaryOperator \<Rightarrow> real \<Rightarrow> real \<Rightarrow> bool" where
  "compare_real Gt a b = (a > b)"
| "compare_real Lt a b = (a < b)"
| "compare_real GtEq a b = (a \<ge> b)"
| "compare_real LtEq a b = (a \<le> b)"
| "compare_real EqEq a b = (a = b)"
| "compare_real NotEq a b = (a \<noteq> b)"
| "compare_real _ a b = False"

text \<open>Sample inputs.\<close>

definition oneBar :: InputData where
  "oneBar = \<lparr>opens = [N 1], highs = [N 1], lows = [N 1], closes = [N 1], volumes = [N 1],
             numBars = 1\<rparr>"

definition twoBars :: InputData where
  "twoBars = \<lparr>opens = [N 5, N 7], highs = [N 9, N 9], lows = [N 4, N 6], closes = [N 6, N 8],
              volumes = [N 0, N 2], numBars = 2\<rparr>"

definition emptySeries :: FunctionType where
  "emptySeries args = Inr []"

section \<open>Argument lists, like parsers and parsers bound to fail\<close>



text \<open>Two tokens are the same to the parser when they have one kind and, unless that kind
  is \<open>EqEq\<close>, one lexeme: the parser reads the lexeme of names and numbers only, and the
  position of a token only to word an error. \<open>nth_token\<close> is the \<open>n\<close>-th token a lexer
  function yields from a state; two parsers are the same when their current tokens, their
  tokens looked ahead and all the tokens they have still to read are.\<close>

definition same_token :: "Token \<Rightarrow> Token \<Rightarrow> bool" where
  "same_token t u \<longleftrightarrow> tokenType t = tokenType u \<and> (tokenType t = TEqEq \<or> lexeme t = lexeme u)"

primrec nth_token :: "('s \<Rightarrow> Token \<times> 's) \<Rightarrow> 's \<Rightarrow> nat \<Rightarrow> Token" where
  "nth_token f s 0 = fst (f s)"
| "nth_token f s (Suc n) = nth_token f (snd (f s)) n"

definition same_parser :: "'s Parser \<Rightarrow> 's Parser \<Rightarrow> bool" where
  "same_parser p q \<longleftrightarrow>
     rel_option same_token (currentToken p) (currentToken q)
     \<and> rel_option same_token (lookahead p) (lookahead q)
     \<and> (\<forall>n. same_token (nth_token (lexer p) (source p) n) (nth_token (lexer q) (source q) n))"

text \<open>The outcome of a parse: no result for want of fuel, the error without the position it
  names, or the syntax tree.\<close>

fun forget :: "syntax_error \<Rightarrow> syntax_error" where
  "forget (UnexpectedToken t l c) = UnexpectedToken t 0 0"
| "forget (ExpectedButGot e t l c) = ExpectedButGot e t 0 0"
| "forget e = e"


text \<open>Results that are the same: the same tree and the same parsers after it, or errors that
  differ in the position only. A parser of expressions \<open>simulates\<close> when it gives the same
  results on the same parsers.\<close>

definition same_result :: "('s, 'a) presult \<Rightarrow> ('s, 'a) presult \<Rightarrow> bool" where
  "same_result r1 r2 \<longleftrightarrow>
     (r1 = None \<and> r2 = None)
     \<or> (\<exists>e1 e2. r1 = Some (Inl e1) \<and> r2 = Some (Inl e2) \<and> forget e1 = forget e2)
     \<or> (\<exists>x p q. r1 = Some (Inr (x, p)) \<and> r2 = Some (Inr (x, q)) \<and> same_parser p q)"





text \<open>The kinds of token that no production of the parser accepts, and the characters that
  are neither a semicolon nor the opening of a comment or a string. \<open>isSingle\<close> and
  \<open>isDouble\<close> are the characters of the tokens of one character and of those that may
  take a second one.\<close>

definition poison :: "TokenType \<Rightarrow> bool" where
  "poison tt \<longleftrightarrow> tt = TSemicolon \<or> tt = TIllegal \<or> tt = TString"




text \<open>The tokens a parser has still to read, the one looked ahead first. A parser is
  \<open>doomed\<close> at distance \<open>d\<close> when it has a current token and the \<open>d\<close>-th token from it,
  the current one counting as 0, is of a kind no production accepts, with no end of input
  before it.\<close>

definition upcoming :: "'s Parser \<Rightarrow> nat \<Rightarrow> Token" where
  "upcoming ps n =
     (case lookahead ps of
        None \<Rightarrow> nth_token (lexer ps) (source ps) n
      | Some t \<Rightarrow> (case n of 0 \<Rightarrow> t | Suc m \<Rightarrow> nth_token (lexer ps) (source ps) m))"

definition doomed :: "nat \<Rightarrow> 's Parser \<Rightarrow> bool" where
  "doomed d ps =
     (case currentToken ps of
        None \<Rightarrow> False
      | Some t \<Rightarrow>
          (case d of
             0 \<Rightarrow> poison (tokenType t)
           | Suc e \<Rightarrow> tokenType t \<noteq> TEof \<and> poison (tokenType (upcoming ps e))
                      \<and> (\<forall>i<e. tokenType (upcoming ps i) \<noteq> TEof)))"

text \<open>A parse has \<open>failed\<close> when it ended with an error the parser throws itself. It
  \<open>ends_before D\<close> when it failed or left a parser doomed at a distance below \<open>D\<close>; a
  parser of expressions is \<open>good\<close> up to \<open>K\<close> when from a parser doomed at a distance
  \<open>d < K\<close> it ends before \<open>d\<close>.\<close>

definition failed :: "('s, 'a) presult \<Rightarrow> bool" where
  "failed r \<longleftrightarrow> (\<exists>e. r = Some (Inl e) \<and> e \<noteq> NullToken)"

definition ends_before :: "nat \<Rightarrow> ('s, 'a) presult \<Rightarrow> bool" where
  "ends_before D r \<longleftrightarrow>
     failed r \<or> (\<exists>x ps d. r = Some (Inr (x, ps)) \<and> d < D \<and> doomed d ps)"


section \<open>Properties of the builtins\<close>

lemma index_arith_exact: "index_arith exactArith n k"
  by (auto simp: index_arith_def exactArith_def js_sub_def)

lemma offset_arith_exact: "offset_arith exactArith n k"
  by (auto simp: offset_arith_def exactArith_def js_sub_def)

lemma js_index_nat: "m < length xs \<Longrightarrow> js_index xs (Fin (real m)) = xs ! m"
  by (simp add: js_index_def js_nth_def)

lemma ma_loop_nat:
  assumes inc: "\<And>j. j < length xs \<Longrightarrow> fadd ar (Fin (real j)) (Fin 1) = Fin (real (Suc j))"
  shows "m \<le> Suc i \<Longrightarrow> i < length xs \<Longrightarrow>
   ma_loop ar xs i (Fin (real m)) (s, c) =
     Some (foldl (\<lambda>(s, c) v. if v \<noteq> Null then (fadd ar s (toNumber v), c + 1) else (s, c)) (s, c)
       (map (\<lambda>j. xs ! j) [m..<Suc i]))"
proof (induction "Suc i - m" arbitrary: m s c)
  case 0
  then have "m = Suc i" by simp
  then show ?case by (subst ma_loop.simps) simp
next
  case (Suc d)
  then have m: "m \<le> i" "m < length xs" by auto
  have upt: "[m..<Suc i] = m # [Suc m..<Suc i]" using m by (simp add: upt_conv_Cons)
  have ih: "\<And>s c. ma_loop ar xs i (Fin (real (Suc m))) (s, c) =
     Some (foldl (\<lambda>(s, c) v. if v \<noteq> Null then (fadd ar s (toNumber v), c + 1) else (s, c)) (s, c)
       (map (\<lambda>j. xs ! j) [Suc m..<Suc i]))"
    using Suc.hyps(1)[of "Suc m"] Suc.hyps(2) Suc.prems m by simp
  show ?case
    apply (subst ma_loop.simps)
    apply (subst upt)
    using m by (simp add: js_index_nat inc ih del: upt_Suc of_nat_Suc)
qed

lemma foldl_window:
  "foldl (\<lambda>(s, c) v. if v \<noteq> Null then (f s (toNumber v), c + 1) else (s, c)) (s, c) vs =
     (foldl (\<lambda>s v. f s (toNumber v)) s (filter (\<lambda>v. v \<noteq> Null) vs),
      c + length (filter (\<lambda>v. v \<noteq> Null) vs))"
  by (induction vs arbitrary: s c) auto

lemma filter_upt_ge: "filter (\<lambda>j. m \<le> j) [0..<n] = [m..<n]"
  by (induction n) (auto simp: not_less_eq_eq)

lemma window_nat:
  assumes "k \<le> Suc i"
  shows "window xs (real k) i = map (\<lambda>j. xs ! j) [Suc i - k..<Suc i]"
proof -
  have "(\<lambda>j. real i - real k + 1 \<le> real j) = (\<lambda>j. Suc i - k \<le> j)"
    using assms by (auto simp: fun_eq_iff)
  then show ?thesis
    unfolding window_def by (simp only: filter_upt_ge)
qed

lemma MA_at_nat:
  assumes "index_arith ar (length xs) k" "i < length xs"
  shows "MA_at ar xs (Fin (real k)) i =
     Some (if real i < real k - 1 then Null
      else (let w = filter (\<lambda>v. v \<noteq> Null) (window xs (real k) i)
            in if w = [] then Null
               else Number (fdiv ar (js_sum ar w) (Fin (real (length w))))))"
proof (cases "real i < real k - 1")
  case True
  then have "js_lt (Fin (real i)) (fsub ar (Fin (real k)) (Fin 1))"
    using assms by (simp add: index_arith_def)
  then show ?thesis using True by (simp add: MA_at_def)
next
  case False
  then have k: "k \<le> Suc i" by linarith
  define w where "w = filter (\<lambda>v. v \<noteq> Null) (map (\<lambda>j. xs ! j) [Suc i - k..<Suc i])"
  have j0: "fadd ar (fsub ar (Fin (real i)) (Fin (real k))) (Fin 1) = Fin (real (Suc i - k))"
    using assms k by (simp add: index_arith_def)
  have inc: "\<And>j. j < length xs \<Longrightarrow> fadd ar (Fin (real j)) (Fin 1) = Fin (real (Suc j))"
    using assms(1) by (simp add: index_arith_def)
  have loop: "ma_loop ar xs i (Fin (real (Suc i - k))) (Fin 0, 0) = Some (js_sum ar w, length w)"
    using ma_loop_nat[of xs ar "Suc i - k" i "Fin 0" 0, OF inc] assms(2)
    by (simp add: foldl_window js_sum_def w_def del: upt_Suc)
  have lhs: "MA_at ar xs (Fin (real k)) i =
      Some (if 0 < length w then Number (fdiv ar (js_sum ar w) (Fin (real (length w)))) else Null)"
  proof -
    have "\<not> js_lt (Fin (real i)) (fsub ar (Fin (real k)) (Fin 1))"
      using False assms by (simp add: index_arith_def)
    then show ?thesis
      by (simp only: MA_at_def j0 loop if_False option.case prod.case)
  qed
  have win: "filter (\<lambda>v. v \<noteq> Null) (window xs (real k) i) = w"
    by (simp only: window_nat[OF k] w_def)
  show ?thesis
    unfolding lhs win using False by (cases w) (simp_all add: Let_def)
qed

lemma those_map_Some:
  "(\<And>i. i \<in> set xs \<Longrightarrow> g i = Some (f i)) \<Longrightarrow> those (map g xs) = Some (map f xs)"
  by (induction xs) auto

text \<open>
  C1 (as amended). For every series \<open>xs\<close> and every period series whose first element is an
  integer \<open>k\<close> with \<open>k \<ge> 1\<close>, \<open>MA\<close> returns a series as long as \<open>xs\<close>, null at every index
  below \<open>k - 1\<close>, and from there on the sum of the non-null values of the window
  \<open>xs[i-k+1..i]\<close> over their count, or null when the window holds no value. The sum and the
  quotient are those of the arithmetic \<open>ar\<close>, whatever it rounds to; of the arithmetic on
  indices \<open>index_arith\<close> is asked.
\<close>

theorem MA_integer_period:
  assumes "1 \<le> k" and "index_arith ar (length xs) k"
  shows "MA ar (xs # (N (real k) # ps) # others) = Some (Inr (MA_spec ar (real k) xs))
         \<and> length (MA_spec ar (real k) xs) = length xs"
proof -
  have "those (map (MA_at ar xs (Fin (real k))) [0..<length xs]) = Some (MA_spec ar (real k) xs)"
    unfolding MA_spec_def
    by (rule those_map_Some) (simp add: MA_at_nat[OF assms(2)])
  then show ?thesis
    by (simp add: MA_def arg_def getNumberArg_def) (simp add: MA_spec_def)
qed

theorem MA_integer_period_witness:
  "(1::nat) \<le> 3
   \<and> index_arith exactArith (length [N 11, N 12, N 13, N 14, N 15]) 3
   \<and> MA exactArith [[N 11, N 12, N 13, N 14, N 15], [N 3, N 3, N 3, N 3, N 3]]
       = Some (Inr (MA_spec exactArith 3 [N 11, N 12, N 13, N 14, N 15]))
   \<and> MA_spec exactArith 3 [N 11, N 12, N 13, N 14, N 15] = [Null, Null, N 12, N 13, N 14]"
proof -
  have k: "(1::nat) \<le> 3" by simp
  have a: "index_arith exactArith (length [N 11, N 12, N 13, N 14, N 15]) 3"
    by (rule index_arith_exact)
  have v: "MA_spec exactArith 3 [N 11, N 12, N 13, N 14, N 15] = [Null, Null, N 12, N 13, N 14]"
    by (simp add: MA_spec_def window_def js_sum_def exactArith_def upt_rec)
  from MA_integer_period[OF k a, of "[N 3, N 3, N 3, N 3]" "[]"] k a v show ?thesis by simp
qed

text \<open>
  C1 as stated fails for a period that is a number but not an integer: with the period
  \<open>5/2\<close> the inner loop reads \<^verbatim>\<open>data[0.5]\<close> and \<^verbatim>\<open>data[1.5]\<close>, which are
  \<^verbatim>\<open>undefined\<close>, and the element at index 2 is NaN, where the claim gives the average
  \<open>5/2\<close> of the two values of the window. Every sum, difference and quotient of this run
  is a double, so no rounding occurs in it.
\<close>

theorem MA_fractional_period_counterexample:
  "MA exactArith [[N 1, N 2, N 3], [N (5/2), N (5/2), N (5/2)]] = Some (Inr [Null, Null, Number NaN])
   \<and> MA_spec exactArith (5/2) [N 1, N 2, N 3] = [Null, Null, N (5/2)]"
  by (simp add: MA_def arg_def getNumberArg_def MA_at_def js_sub_def ma_loop.simps exactArith_def
        js_index_def js_nth_def MA_spec_def window_def js_sum_def upt_rec)

lemma collect_Inr: "collect (map (\<lambda>i. Inr (f i)) xs) = Inr (map f xs)"
  by (induction xs) auto

lemma collect_map_cong_Inr:
  "(\<And>i. i \<in> set xs \<Longrightarrow> g i = Inr (f i)) \<Longrightarrow> collect (map g xs) = Inr (map f xs)"
  by (induction xs) auto

lemma CROSS_at_eq:
  assumes "length a = length b" "i < length a"
  shows "CROSS_at a (Some b) i = Inr (if cross_up a b i then N 1 else N 0)"
  using assms by (auto simp: CROSS_at_def cross_up_def js_nth_def)

text \<open>
  C5. For equal-length series \<open>a\<close> and \<open>b\<close>, \<open>CROSS\<close> returns a series of that length whose
  every element is exactly 0 or 1 and never null, whose first element is 0, and whose
  element at \<open>i > 0\<close> is 1 exactly when \<open>a[i-1]\<close>, \<open>b[i-1]\<close>, \<open>a[i]\<close>, \<open>b[i]\<close> are all
  non-null with \<open>a[i-1] < b[i-1]\<close> and \<open>a[i] > b[i]\<close>.
\<close>

theorem CROSS_upward_only:
  assumes "length a = length b"
  shows "\<exists>r. CROSS (a # b # others) = Inr r \<and> length r = length a
           \<and> (\<forall>i<length a. r ! i = (if cross_up a b i then N 1 else N 0)
                 \<and> (r ! i = N 0 \<or> r ! i = N 1) \<and> r ! i \<noteq> Null)
           \<and> (a \<noteq> [] \<longrightarrow> r ! 0 = N 0)"
proof -
  have "CROSS (a # b # others) = Inr (map (\<lambda>i. if cross_up a b i then N 1 else N 0) [0..<length a])"
  proof -
    have "collect (map (CROSS_at a (Some b)) [0..<length a]) =
        Inr (map (\<lambda>i. if cross_up a b i then N 1 else N 0) [0..<length a])"
      by (rule collect_map_cong_Inr) (simp add: CROSS_at_eq[OF assms])
    then show ?thesis by (simp add: CROSS_def arg_def)
  qed
  then show ?thesis by (auto simp: cross_up_def)
qed

theorem CROSS_upward_only_witness:
  "length [N 1, N 3, Null, N 5] = length [N 2, N 2, N 2, N 2]
   \<and> CROSS [[N 1, N 3, Null, N 5], [N 2, N 2, N 2, N 2]] = Inr [N 0, N 1, N 0, N 0]
   \<and> cross_up [N 1, N 3, Null, N 5] [N 2, N 2, N 2, N 2] 1
   \<and> (\<exists>r. CROSS [[N 1, N 3, Null, N 5], [N 2, N 2, N 2, N 2]] = Inr r \<and> r ! 0 = N 0
          \<and> r ! 1 = N 1 \<and> r ! 2 \<noteq> Null)"
  using CROSS_upward_only[of "[N 1, N 3, Null, N 5]" "[N 2, N 2, N 2, N 2]" "[]"]
  by (simp add: CROSS_def arg_def CROSS_at_def js_nth_def js_gt_def cross_up_def upt_rec)

lemma js_lt_not_ge: "js_lt x (Fin 0) \<Longrightarrow> \<not> js_ge x (Fin 0)"
  by (cases x) (simp_all add: js_ge_def)

text \<open>
  C6 (as amended). With a non-negative integer offset \<open>k\<close>, the element of \<open>REF\<close> at \<open>i\<close> is
  \<open>X[i - k]\<close> from index \<open>k\<close> on and null below; with the offset 0 the result is the series
  itself; a negative offset is the error \<^verbatim>\<open>REF offset must be non-negative\<close> and no
  series. Of the arithmetic on indices \<open>offset_arith\<close> is asked.
\<close>

theorem REF_shift:
  assumes "offset_arith ar (length X) k"
  shows "REF ar (X # (N (real k) # zs) # others) =
           Inr (map (\<lambda>i. if k \<le> i then X ! (i - k) else Null) [0..<length X])
         \<and> (k = 0 \<longrightarrow> REF ar (X # (N 0 # zs) # others) = Inr X)
         \<and> (r < 0 \<longrightarrow> REF ar (X # (N r # zs) # others) = Inl RefOffsetNegative)"
proof -
  have at: "(let refIndex = fsub ar (Fin (real i)) (Fin (real k))
             in if js_ge refIndex (Fin 0) then js_index X refIndex else Null) =
            (if k \<le> i then X ! (i - k) else Null)" if "i < length X" for i
  proof (cases "k \<le> i")
    case True
    then have "fsub ar (Fin (real i)) (Fin (real k)) = Fin (real (i - k))"
      using assms that by (simp add: offset_arith_def)
    moreover have "i - k < length X" using that by simp
    ultimately show ?thesis
      using True by (simp add: js_ge_def js_index_nat del: of_nat_diff)
  next
    case False
    then have "js_lt (fsub ar (Fin (real i)) (Fin (real k))) (Fin 0)"
      using assms that by (simp add: offset_arith_def)
    then show ?thesis using False by (simp add: js_lt_not_ge)
  qed
  have shift: "REF ar (X # (N (real k) # zs) # others) =
           Inr (map (\<lambda>i. if k \<le> i then X ! (i - k) else Null) [0..<length X])"
    by (simp add: REF_def arg_def getNumberArg_def at cong: map_cong)
  have zero: "REF ar (X # (N 0 # zs) # others) = Inr X" if "k = 0"
  proof -
    have "map (\<lambda>i. if k \<le> i then X ! (i - k) else Null) [0..<length X] = map (\<lambda>i. X ! i) [0..<length X]"
      using that by simp
    then show ?thesis using shift that by (simp add: map_nth)
  qed
  have neg: "REF ar (X # (N r # zs) # others) = Inl RefOffsetNegative" if "r < 0"
    using that by (simp add: REF_def arg_def getNumberArg_def)
  from shift zero neg show ?thesis by blast
qed

theorem REF_shift_witness:
  "offset_arith exactArith (length [N 11, N 12, N 13]) 1
   \<and> REF exactArith [[N 11, N 12, N 13], [N 1, N 1, N 1]] = Inr [Null, N 11, N 12]
   \<and> offset_arith exactArith (length [N 11, N 12, N 13]) 0
   \<and> REF exactArith [[N 11, N 12, N 13], [N 0, N 0, N 0]] = Inr [N 11, N 12, N 13]
   \<and> (-1::real) < 0
   \<and> REF exactArith [[N 11, N 12, N 13], [N (-1), N (-1), N (-1)]] = Inl RefOffsetNegative"
proof -
  have a1: "offset_arith exactArith (length [N 11, N 12, N 13]) 1"
    and a0: "offset_arith exactArith (length [N 11, N 12, N 13]) 0"
    by (rule offset_arith_exact)+
  from REF_shift[OF a1, of "[N 1, N 1]" "[]" 0]
  have one: "REF exactArith [[N 11, N 12, N 13], [N 1, N 1, N 1]] = Inr [Null, N 11, N 12]"
    by (simp add: upt_rec)
  from REF_shift[OF a0, of "[N 0, N 0]" "[]" 0]
  have zero: "REF exactArith [[N 11, N 12, N 13], [N 0, N 0, N 0]] = Inr [N 11, N 12, N 13]"
    by simp
  from REF_shift[OF a0, of "[N (-1), N (-1)]" "[]" "-1"]
  have neg: "REF exactArith [[N 11, N 12, N 13], [N (-1), N (-1), N (-1)]] = Inl RefOffsetNegative"
    by simp
  from a1 one a0 zero neg show ?thesis by simp
qed

text \<open>
  C6 as stated fails for an offset that is a number but not an integer: with the offset
  \<open>1/2\<close> the elements at the indices 1 and 2 are \<^verbatim>\<open>data[0.5]\<close> and \<^verbatim>\<open>data[1.5]\<close>,
  which are \<^verbatim>\<open>undefined\<close>: no element of the series and not null. The differences
  \<open>1 - 1/2\<close> and \<open>2 - 1/2\<close> are doubles, so no rounding occurs in this run.
\<close>

theorem REF_fractional_offset_counterexample:
  "REF exactArith [[N 11, N 12, N 13], [N (1/2), N (1/2), N (1/2)]] = Inr [Null, Undefined, Undefined]
   \<and> Undefined \<notin> set [N 11, N 12, N 13] \<and> Undefined \<noteq> Null"
  by (simp add: REF_def arg_def getNumberArg_def exactArith_def js_sub_def js_ge_def js_index_def
        js_nth_def upt_rec)

section \<open>Properties of the evaluator\<close>

lemma strict_eq_zero: "strict_eq v (N 0) \<longleftrightarrow> v = N 0"
  by (cases v) auto

lemma evaluateBinaryOp_unfold:
  assumes "evaluateExpr ev l = Inr lv" "evaluateExpr ev r = Inr rv"
  shows "evaluateExpr ev (BinaryOp l operator r) =
     (if length lv \<noteq> length rv then Inl BinaryLengthMismatch
      else Inr (map (\<lambda>i. binaryElem operator (lv ! i) (rv ! i)) [0..<length lv]))"
  using assms by simp

text \<open>
  C2. When both operands of a \<open>Div\<close> evaluate to series of one length, the evaluation
  returns a series (it does not throw), and at every index where both operand elements are
  non-null and the right one is 0 the result element is null, hence no infinity.
\<close>

theorem div_by_zero_null:
  assumes "evaluateExpr ev l = Inr lv" "evaluateExpr ev r = Inr rv" "length lv = length rv"
  shows "\<exists>res. evaluateExpr ev (BinaryOp l Div r) = Inr res \<and> length res = length lv
           \<and> (\<forall>i<length lv. lv ! i \<noteq> Null \<and> rv ! i = N 0 \<longrightarrow>
                  res ! i = Null \<and> res ! i \<noteq> Number PInf \<and> res ! i \<noteq> Number NInf)"
  using assms by (simp add: evaluateBinaryOp_unfold binaryElem_def)

theorem div_by_zero_null_witness:
  "evaluateExpr (createEvaluator twoBars Map.empty) (Variable ''C'') = Inr [N 6, N 8]
   \<and> evaluateExpr (createEvaluator twoBars Map.empty) (Variable ''V'') = Inr [N 0, N 2]
   \<and> length [N 6, N 8] = length [N 0, N 2]
   \<and> [N 6, N 8] ! 0 \<noteq> Null \<and> [N 0, N 2] ! 0 = N 0
   \<and> evaluateExpr (createEvaluator twoBars Map.empty)
        (BinaryOp (Variable ''C'') Div (Variable ''V'')) = Inr [Null, N 4]"
proof -
  have l: "evaluateExpr (createEvaluator twoBars Map.empty) (Variable ''C'') = Inr [N 6, N 8]"
    by (simp add: createEvaluator_def initializeBuiltinVariables_def resolveVariable_def
          twoBars_def)
  have r: "evaluateExpr (createEvaluator twoBars Map.empty) (Variable ''V'') = Inr [N 0, N 2]"
    by (simp add: createEvaluator_def initializeBuiltinVariables_def resolveVariable_def
          twoBars_def)
  have n: "length [N 6, N 8] = length [N 0, N 2]" by simp
  from div_by_zero_null[OF l r n] l r show ?thesis
    by (simp add: binaryElem_def upt_rec)
qed

lemma binaryElem_null: "l = Null \<or> r = Null \<Longrightarrow> binaryElem operator l r = Null"
  by (auto simp: binaryElem_def)

lemma binaryElem_compare:
  assumes "l \<noteq> Null" "r \<noteq> Null" "operator \<in> {Gt, Lt, GtEq, LtEq, EqEq, NotEq}"
  shows "binaryElem operator l r = N 1 \<or> binaryElem operator l r = N 0"
  using assms by (cases operator) (simp_all add: binaryElem_def bool_val_def)

lemma binaryElem_compare_real:
  assumes "operator \<in> {Gt, Lt, GtEq, LtEq, EqEq, NotEq}"
  shows "binaryElem operator (N a) (N b) = (if compare_real operator a b then N 1 else N 0)"
  using assms by (auto simp: binaryElem_def bool_val_def js_gt_def js_ge_def)

lemma binaryElem_And:
  assumes "l \<noteq> Null" "r \<noteq> Null"
  shows "binaryElem And l r = (if truthy l \<and> truthy r then N 1 else N 0)"
  using assms by (simp add: binaryElem_def bool_val_def strict_eq_zero truthy_def)

lemma binaryElem_Or:
  assumes "l \<noteq> Null" "r \<noteq> Null"
  shows "binaryElem Or l r = (if truthy l \<or> truthy r then N 1 else N 0)"
  using assms by (simp add: binaryElem_def bool_val_def strict_eq_zero truthy_def)

text \<open>
  C3. With both operands evaluated, a \<open>BinaryOp\<close> fails when their lengths differ; otherwise
  the result has that length and is elementwise: null where either operand element is null;
  for the six comparisons exactly 1 or 0 (on two finite numbers: 1 when the comparison
  holds); for \<open>And\<close> and \<open>Or\<close> exactly 1 or 0, a non-null element counting as true when it
  is not zero.
\<close>

theorem binop_elementwise:
  assumes "evaluateExpr ev l = Inr lv" "evaluateExpr ev r = Inr rv"
  shows "(length lv \<noteq> length rv \<longrightarrow> evaluateExpr ev (BinaryOp l operator r) = Inl BinaryLengthMismatch)
    \<and> (length lv = length rv \<longrightarrow>
         (\<exists>res. evaluateExpr ev (BinaryOp l operator r) = Inr res \<and> length res = length lv
            \<and> (\<forall>i<length lv.
                 (lv ! i = Null \<or> rv ! i = Null \<longrightarrow> res ! i = Null)
               \<and> (lv ! i \<noteq> Null \<and> rv ! i \<noteq> Null \<and> operator \<in> {Gt, Lt, GtEq, LtEq, EqEq, NotEq} \<longrightarrow>
                    (res ! i = N 1 \<or> res ! i = N 0)
                  \<and> (\<forall>a b. lv ! i = N a \<and> rv ! i = N b \<longrightarrow>
                         res ! i = (if compare_real operator a b then N 1 else N 0)))
               \<and> (lv ! i \<noteq> Null \<and> rv ! i \<noteq> Null \<and> operator = And \<longrightarrow>
                    res ! i = (if truthy (lv ! i) \<and> truthy (rv ! i) then N 1 else N 0))
               \<and> (lv ! i \<noteq> Null \<and> rv ! i \<noteq> Null \<and> operator = Or \<longrightarrow>
                    res ! i = (if truthy (lv ! i) \<or> truthy (rv ! i) then N 1 else N 0)))))"
proof (cases "length lv = length rv")
  case False
  then show ?thesis using assms by (simp add: evaluateBinaryOp_unfold)
next
  case True
  have res: "evaluateExpr ev (BinaryOp l operator r) =
      Inr (map (\<lambda>i. binaryElem operator (lv ! i) (rv ! i)) [0..<length lv])"
    using assms True by (simp add: evaluateBinaryOp_unfold)
  show ?thesis
    unfolding res using True
    by (auto simp: binaryElem_null binaryElem_And binaryElem_Or binaryElem_compare_real
          dest: binaryElem_compare[of _ _ operator])
qed

theorem binop_elementwise_witness:
  "evaluateExpr (createEvaluator twoBars [''F'' \<mapsto> emptySeries]) (Variable ''C'') = Inr [N 6, N 8]
   \<and> evaluateExpr (createEvaluator twoBars [''F'' \<mapsto> emptySeries]) (Variable ''V'') = Inr [N 0, N 2]
   \<and> evaluateExpr (createEvaluator twoBars [''F'' \<mapsto> emptySeries]) (FunctionCall ''F'' []) = Inr []
   \<and> evaluateExpr (createEvaluator twoBars [''F'' \<mapsto> emptySeries])
        (BinaryOp (Variable ''C'') Gt (Variable ''V'')) = Inr [N 1, N 1]
   \<and> evaluateExpr (createEvaluator twoBars [''F'' \<mapsto> emptySeries])
        (BinaryOp (Variable ''C'') And (Variable ''V'')) = Inr [N 0, N 1]
   \<and> evaluateExpr (createEvaluator twoBars [''F'' \<mapsto> emptySeries])
        (BinaryOp (Variable ''C'') Add (FunctionCall ''F'' [])) = Inl BinaryLengthMismatch"
proof -
  let ?ev = "createEvaluator twoBars [''F'' \<mapsto> emptySeries]"
  have l: "evaluateExpr ?ev (Variable ''C'') = Inr [N 6, N 8]"
    by (simp add: createEvaluator_def initializeBuiltinVariables_def resolveVariable_def
          twoBars_def)
  have r: "evaluateExpr ?ev (Variable ''V'') = Inr [N 0, N 2]"
    by (simp add: createEvaluator_def initializeBuiltinVariables_def resolveVariable_def
          twoBars_def)
  have f: "evaluateExpr ?ev (FunctionCall ''F'' []) = Inr []"
    by (simp add: createEvaluator_def initializeBuiltinVariables_def callFunction_def
          getFunction_def toUpperCase_def upperChar_def emptySeries_def)
  from binop_elementwise[OF l r, of Gt] binop_elementwise[OF l r, of And]
    binop_elementwise[OF l f, of Add] l r f
  show ?thesis
    by (simp add: binaryElem_def bool_val_def js_gt_def upt_rec)
qed

lemma evaluate_outputLines:
  "evaluateExpr (ev\<lparr>outputLines := ls\<rparr>) e = evaluateExpr ev e"
  "evaluateArgs (ev\<lparr>outputLines := ls\<rparr>) es = evaluateArgs ev es"
  by (induction ev e and ev es rule: evaluateExpr_evaluateArgs.induct)
     (simp_all add: expandNumber_def resolveVariable_def callFunction_def split: sum.splits)

lemma executeStatement_dom:
  "executeStatement st ev = (r, ev') \<Longrightarrow> dom (environment ev) \<subseteq> dom (environment ev')"
  by (auto simp: executeStatement_def split: Statement.splits sum.splits)

lemma runStatements_dom:
  "runStatements f ev = (r, ev') \<Longrightarrow> dom (environment ev) \<subseteq> dom (environment ev')"
proof (induction f arbitrary: ev)
  case Nil
  then show ?case by simp
next
  case (Cons st f)
  obtain r1 ev1 where ex: "executeStatement st ev = (r1, ev1)" by (cases "executeStatement st ev")
  have d1: "dom (environment ev) \<subseteq> dom (environment ev1)" using executeStatement_dom[OF ex] .
  show ?case
  proof (cases r1)
    case (Inl e)
    then show ?thesis using Cons.prems ex d1 by simp
  next
    case (Inr res)
    show ?thesis
    proof (cases res)
      case None
      then have "runStatements f ev1 = (r, ev')" using Cons.prems ex Inr by simp
      from Cons.IH[OF this] d1 show ?thesis by blast
    next
      case (Some line)
      then have "runStatements f (ev1\<lparr>outputLines := outputLines ev1 @ [line]\<rparr>) = (r, ev')"
        using Cons.prems ex Inr by simp
      from Cons.IH[OF this] d1 show ?thesis by auto
    qed
  qed
qed

lemma evaluateFormula_dom:
  "dom (environment ev) \<subseteq> dom (environment (snd (evaluateFormula f ev)))"
proof -
  obtain r ev' where run: "runStatements f (ev\<lparr>outputLines := []\<rparr>) = (r, ev')"
    by (cases "runStatements f (ev\<lparr>outputLines := []\<rparr>)")
  from runStatements_dom[OF run] show ?thesis
    by (cases r) (simp_all add: evaluateFormula_def run)
qed

text \<open>
  C4 (as amended). A second \<open>evaluateFormula\<close> call on one evaluator starts from the
  environment the first call left: no binding is ever removed, and a binding that an
  assignment of the first call made is what a variable of the second call reads; the output
  accumulator is reset at the start of every call, so the lines already accumulated do not
  show in the result.
\<close>

theorem evaluator_reuse:
  "dom (environment ev) \<subseteq> dom (environment (snd (evaluateFormula f ev)))
   \<and> (evaluateExpr ev e = Inr v \<and> n \<noteq> [] \<longrightarrow>
        fst (evaluateFormula [Output (Some n) (Variable x) sty]
               (snd (evaluateFormula [Assignment x e] ev)))
          = Inr [\<lparr>lineName = n, lineData = v, lineStyles = sty\<rparr>])
   \<and> fst (evaluateFormula f (ev\<lparr>outputLines := old\<rparr>)) = fst (evaluateFormula f ev)"
proof (intro conjI impI)
  show "dom (environment ev) \<subseteq> dom (environment (snd (evaluateFormula f ev)))"
    by (rule evaluateFormula_dom)
  show "fst (evaluateFormula f (ev\<lparr>outputLines := old\<rparr>)) = fst (evaluateFormula f ev)"
    by (simp add: evaluateFormula_def)
  assume a: "evaluateExpr ev e = Inr v \<and> n \<noteq> []"
  then show "fst (evaluateFormula [Output (Some n) (Variable x) sty]
               (snd (evaluateFormula [Assignment x e] ev)))
          = Inr [\<lparr>lineName = n, lineData = v, lineStyles = sty\<rparr>]"
    by (simp add: evaluateFormula_def executeStatement_def evaluate_outputLines resolveVariable_def)
qed

theorem evaluator_reuse_witness:
  "evaluateExpr (createEvaluator oneBar Map.empty) (Literal (Fin 7)) = Inr [N 7] \<and> ''X'' \<noteq> []
   \<and> fst (evaluateFormula [Output (Some ''X'') (Variable ''A'') [''COLORRED'']]
            (snd (evaluateFormula [Assignment ''A'' (Literal (Fin 7))]
                   (createEvaluator oneBar Map.empty))))
       = Inr [\<lparr>lineName = ''X'', lineData = [N 7], lineStyles = [''COLORRED'']\<rparr>]"
proof -
  have e: "evaluateExpr (createEvaluator oneBar Map.empty) (Literal (Fin 7)) = Inr [N 7]"
    by (simp add: expandNumber_def createEvaluator_def initializeBuiltinVariables_def oneBar_def)
  from evaluator_reuse[of "createEvaluator oneBar Map.empty" "[]" "Literal (Fin 7)" "[N 7]"
      "''X''" "''A''" "[''COLORRED'']" "[]"] e
  show ?thesis by simp
qed

text \<open>
  C4 as stated fails: the environment is made in the constructor only. After a first call
  has run \<^verbatim>\<open>A := 7\<close>, a second call on the same evaluator reads \<open>A\<close>, where a fresh
  environment answers that the variable is undefined.
\<close>

theorem fresh_environment_counterexample:
  "fst (evaluateFormula [Output (Some ''X'') (Variable ''A'') []]
         (snd (evaluateFormula [Assignment ''A'' (Literal (Fin 7))] (createEvaluator oneBar Map.empty))))
     = Inr [\<lparr>lineName = ''X'', lineData = [N 7], lineStyles = []\<rparr>]
   \<and> fst (evaluateFormula [Output (Some ''X'') (Variable ''A'') []] (createEvaluator oneBar Map.empty))
     = Inl (UndefinedVariable ''A'')"
  by (simp add: evaluateFormula_def executeStatement_def createEvaluator_def
        initializeBuiltinVariables_def resolveVariable_def expandNumber_def oneBar_def)


section \<open>Properties of the lexer\<close>
























lemma nextToken_unrecognised:
  assumes "\<not> isAtEnd lx" "\<not> recognised (peek lx)"
  shows "nextToken lx = (createToken TIllegal [peek lx] (line lx) (column lx), lx)"
proof -
  have sw: "skipWhitespace lx = lx"
    using assms by (subst skipWhitespace.simps) (simp add: recognised_def)
  show ?thesis
    using assms by (subst nextToken.simps) (simp add: sw Let_def recognised_def)
qed

lemma lexN_stuck:
  assumes "nextToken lx = (t, lx)"
  shows "lexN n lx = (replicate n t, lx)"
  by (induction n) (simp_all add: assms)

text \<open>
  C9. When \<open>nextToken\<close>, having skipped the blanks, meets a character it has no branch for,
  it returns an \<open>Illegal\<close> token holding that character and leaves the lexer where the
  character is (position, line and column unchanged); every later call returns the same
  token, and no call ever returns the end-of-input token.
\<close>

theorem illegal_char_stuck:
  assumes "\<not> isAtEnd (skipWhitespace lx0)" "\<not> recognised (peek (skipWhitespace lx0))"
  shows "\<exists>t. tokenType t = TIllegal \<and> lexeme t = [peek (skipWhitespace lx0)]
           \<and> nextToken lx0 = (t, skipWhitespace lx0)
           \<and> nextToken (skipWhitespace lx0) = (t, skipWhitespace lx0)
           \<and> (\<forall>n. lexN n (skipWhitespace lx0) = (replicate n t, skipWhitespace lx0))
           \<and> (\<forall>n. fst (lexN n lx0) = replicate n t \<and> TEof \<notin> tokenType ` set (fst (lexN n lx0)))"
proof -
  define lx where "lx = skipWhitespace lx0"
  define t where "t = createToken TIllegal [peek lx] (line lx) (column lx)"
  have 1: "nextToken lx = (t, lx)"
    using nextToken_unrecognised[of lx] assms by (simp add: lx_def t_def)
  have sw: "skipWhitespace lx = lx"
    using assms by (subst skipWhitespace.simps) (simp add: recognised_def lx_def)
  have 0: "nextToken lx0 = (t, lx)"
    using 1 by (subst nextToken.simps, subst (asm) nextToken.simps) (simp add: sw lx_def[symmetric])
  have n: "lexN n lx = (replicate n t, lx)" for n by (rule lexN_stuck[OF 1])
  have n0: "fst (lexN n lx0) = replicate n t" for n
    by (cases n) (simp_all add: 0 n)
  have k: "tokenType t = TIllegal" "lexeme t = [peek lx]" by (simp_all add: t_def createToken_def)
  show ?thesis
    using 0 1 n n0 k unfolding lx_def[symmetric] by (intro exI[of _ t]) auto
qed

theorem illegal_char_stuck_witness:
  "\<not> isAtEnd (skipWhitespace (createLexer '' @ 1''))
   \<and> \<not> recognised (peek (skipWhitespace (createLexer '' @ 1'')))
   \<and> skipWhitespace (createLexer '' @ 1'') = \<lparr>input = '' @ 1'', position = 1, line = 1, column = 2\<rparr>
   \<and> (\<exists>t. tokenType t = TIllegal \<and> lexeme t = ''@''
          \<and> nextToken (createLexer '' @ 1'') = (t, skipWhitespace (createLexer '' @ 1''))
          \<and> fst (lexN 3 (createLexer '' @ 1'')) = [t, t, t])"
proof -
  have sw: "skipWhitespace (createLexer '' @ 1'')
      = \<lparr>input = '' @ 1'', position = 1, line = 1, column = 2\<rparr>"
    by (simp add: skipWhitespace.simps createLexer_def isAtEnd_def peek_def advance_def)
  have h1: "\<not> isAtEnd (skipWhitespace (createLexer '' @ 1''))"
    by (simp add: sw isAtEnd_def)
  have h2: "\<not> recognised (peek (skipWhitespace (createLexer '' @ 1'')))"
    by (simp add: sw peek_def isAtEnd_def recognised_def isDigit_def isAlpha_def)
  have pk: "peek (skipWhitespace (createLexer '' @ 1'')) = CHR ''@''"
    by (simp add: sw peek_def isAtEnd_def)
  from illegal_char_stuck[OF h1 h2] h1 h2 sw pk show ?thesis
    by (auto simp: eval_nat_numeral)
qed


section \<open>Properties of the parser\<close>

lemma tk_sel [simp]: "tokenType (tk tt s) = tt" "lexeme (tk tt s) = s"
  by (simp_all add: tk_def createToken_def)













lemma expect_Inr_iff:
  "expectToken tt ps = Inr (t, ps') \<longleftrightarrow>
     currentToken ps = Some t \<and> tokenType t = tt \<and> ps' = Parser_advance ps"
  by (cases "currentToken ps") (auto simp: expectToken_def)








section \<open>The parser on token streams of the same kinds\<close>

lemma same_result_None [simp]: "same_result None None"
  by (simp add: same_result_def)

lemma same_result_Inl [simp]:
  "same_result (Some (Inl e1)) (Some (Inl e2)) \<longleftrightarrow> forget e1 = forget e2"
  by (simp add: same_result_def)

lemma same_result_Inr [simp]:
  "same_result (Some (Inr (x, p))) (Some (Inr (y, q))) \<longleftrightarrow> x = y \<and> same_parser p q"
  by (auto simp: same_result_def)






























section \<open>The scanner, token by token\<close>




































section \<open>Texts with a semicolon\<close>











lemma ends_failed [simp]: "e \<noteq> NullToken \<Longrightarrow> ends_before D (Some (Inl e))"
  by (simp add: ends_before_def failed_def)






lemma not_poison [simp]:
  "\<not> poison TComma" "\<not> poison TRParen" "\<not> poison TLParen" "\<not> poison TIdentifier"
  "\<not> poison TIf" "\<not> poison TNumber" "\<not> poison TMinus" "\<not> poison TNot"
  "\<not> poison TColon" "\<not> poison TColonAssign" "\<not> poison TNewline"
  by (simp_all add: poison_def)





























end
